theory Spec2Isabelle
  imports Complex_Main
begin

section \<open>Vision service: control signal derivation\<close>

text \<open>
  The model follows \<^verbatim>\<open>backend/vision_service/server.py\<close>. Python floats are
  idealised as \<^typ>\<open>real\<close>; every exception the source can raise is a value of
  \<open>py_error\<close>, returned as \<open>Inl\<close>.
\<close>

datatype py_error =
    ZeroDivisionError
  | IndexError
  | TypeError
  | AttributeError
  | JSONDecodeError
  | ImportError
  | LibraryError string

text \<open>
  A landmark is the Python list \<^verbatim>\<open>[x, y, z]\<close> the hand tracker appends
  (\<^verbatim>\<open>l[0]\<close>, \<^verbatim>\<open>l[1]\<close>, \<^verbatim>\<open>l[2]\<close> in the source), so it is a list of
  coordinates, and reading a coordinate that is not there raises \<open>IndexError\<close>.
\<close>

type_synonym landmark = "real list"

record bounding_box =
  box_x :: real
  box_y :: real
  box_width :: real
  box_height :: real

record hand =
  landmarks :: "landmark list"
  handedness :: string
  confidence :: real
  boundingBox :: bounding_box

record direction =
  dir_x :: real
  dir_y :: real

record control_signal =
  direction :: direction
  thrust :: real
  action :: string

text \<open>
  \<^verbatim>\<open>sum(l[i] for l in landmarks)\<close>: the generator is consumed from the left, starting
  at 0, and the first landmark shorter than \<open>i + 1\<close> raises.
\<close>

fun sum_coord :: "nat \<Rightarrow> real \<Rightarrow> landmark list \<Rightarrow> py_error + real" where
  "sum_coord i acc [] = Inr acc"
| "sum_coord i acc (l # ls) =
     (if i < length l then sum_coord i (acc + l ! i) ls else Inl IndexError)"

text \<open>Python's true division by \<^verbatim>\<open>len(landmarks)\<close>.\<close>

definition py_truediv :: "real \<Rightarrow> nat \<Rightarrow> py_error + real" where
  "py_truediv a n = (if n = 0 then Inl ZeroDivisionError else Inr (a / real n))"

text \<open>\<^verbatim>\<open>sum(l[i] for l in landmarks) / len(landmarks)\<close>: the sum is evaluated first.\<close>

definition coord_mean :: "nat \<Rightarrow> landmark list \<Rightarrow> py_error + real" where
  "coord_mean i lms =
     (case sum_coord i 0 lms of
        Inl e \<Rightarrow> Inl e
      | Inr s \<Rightarrow> py_truediv s (length lms))"

text \<open>
  \<^verbatim>\<open>sum(l[2] ...) / len(landmarks) if len(landmarks[0]) > 2 else 0\<close>: the condition
  is evaluated first and looks at the first landmark only.
\<close>

definition avg_depth :: "landmark list \<Rightarrow> py_error + real" where
  "avg_depth lms =
     (case lms of
        [] \<Rightarrow> Inl IndexError
      | l0 # _ \<Rightarrow> if 2 < length l0 then coord_mean 2 lms else Inr 0)"

definition calculate_control_signal :: "hand \<Rightarrow> nat list \<Rightarrow> py_error + control_signal" where
  "calculate_control_signal hand image_shape =
     (let lms = landmarks hand in
      case coord_mean 0 lms of
        Inl e \<Rightarrow> Inl e
      | Inr center_x \<Rightarrow>
     (case coord_mean 1 lms of
        Inl e \<Rightarrow> Inl e
      | Inr center_y \<Rightarrow>
     (let d = \<lparr>dir_x = (center_x - 0.5) * 2, dir_y = (0.5 - center_y) * 2\<rparr> in
      case avg_depth lms of
        Inl e \<Rightarrow> Inl e
      | Inr avg_z \<Rightarrow>
     (let t = max 0 (min 1 (1 - (avg_z + 0.5)));
          a = (if 21 \<le> length lms
               then (if 0.7 < t then ''BOOST'' else ''IDLE'')
               else ''IDLE'')
      in Inr \<lparr>direction = d, thrust = t, action = a\<rparr>))))"

subsection \<open>The derivation as the specification words it\<close>

text \<open>
  The reference definition of section 4.5: means of the coordinates, the vertical axis
  inverted, the depth mean when every landmark carries a depth and 0 otherwise, and the
  clamp of the thrust.
\<close>

definition spec_mean :: "nat \<Rightarrow> landmark list \<Rightarrow> real" where
  "spec_mean i lms = sum_list (map (\<lambda>l. l ! i) lms) / real (length lms)"

definition spec_clamp :: "real \<Rightarrow> real \<Rightarrow> real \<Rightarrow> real" where
  "spec_clamp v lo hi = (if v < lo then lo else if hi < v then hi else v)"

definition depth_present :: "landmark list \<Rightarrow> bool" where
  "depth_present lms = list_all (\<lambda>l. 2 < length l) lms"

definition spec_direction_x :: "landmark list \<Rightarrow> real" where
  "spec_direction_x lms = (spec_mean 0 lms - 0.5) * 2"

definition spec_direction_y :: "landmark list \<Rightarrow> real" where
  "spec_direction_y lms = (0.5 - spec_mean 1 lms) * 2"

definition spec_avg_z :: "landmark list \<Rightarrow> real" where
  "spec_avg_z lms = (if depth_present lms then spec_mean 2 lms else 0)"

definition spec_thrust :: "landmark list \<Rightarrow> real" where
  "spec_thrust lms = spec_clamp (1 - (spec_avg_z lms + 0.5)) 0 1"

text \<open>
  A landmark list has a shape the derivation can read when every landmark has its
  \<open>x\<close> and \<open>y\<close>, and when the first one carries a depth all of them do.
\<close>

definition well_shaped :: "landmark list \<Rightarrow> bool" where
  "well_shaped lms =
     (list_all (\<lambda>l. 2 \<le> length l) lms \<and>
      (case lms of [] \<Rightarrow> True | l0 # _ \<Rightarrow> 2 < length l0 \<longrightarrow> depth_present lms))"

definition unit_square :: "landmark list \<Rightarrow> bool" where
  "unit_square lms =
     list_all (\<lambda>l. 0 \<le> l ! 0 \<and> l ! 0 \<le> 1 \<and> 0 \<le> l ! 1 \<and> l ! 1 \<le> 1) lms"

section \<open>Vision service: messages, adapters and the session handler\<close>

text \<open>
  A message is what \<^verbatim>\<open>json.loads\<close> returns. Python's \<^verbatim>\<open>None\<close> is \<open>JNull\<close>, so
  \<^verbatim>\<open>message.get(k)\<close> on a missing key is \<open>JNull\<close> too.
\<close>

datatype json =
    JNull
  | JBool bool
  | JNum real
  | JStr string
  | JArr "json list"
  | JObj "(string \<times> json) list"

text \<open>\<^verbatim>\<open>d.get(k, default)\<close>.\<close>

definition dict_get :: "(string \<times> json) list \<Rightarrow> string \<Rightarrow> json \<Rightarrow> json" where
  "dict_get d k dflt = (case map_of d k of None \<Rightarrow> dflt | Some v \<Rightarrow> v)"

text \<open>Python truthiness of a decoded JSON value (\<^verbatim>\<open>if v:\<close>, \<^verbatim>\<open>not v\<close>).\<close>

fun truthy :: "json \<Rightarrow> bool" where
  "truthy JNull = False"
| "truthy (JBool b) = b"
| "truthy (JNum r) = (r \<noteq> 0)"
| "truthy (JStr s) = (s \<noteq> [])"
| "truthy (JArr vs) = (vs \<noteq> [])"
| "truthy (JObj kvs) = (kvs \<noteq> [])"

text \<open>The decoded frame: a numpy array, as its shape and its bytes.\<close>

record image =
  shape :: "nat list"
  pixels :: "nat list"

text \<open>
  The dictionary \<^verbatim>\<open>results\<close> built for a frame; its \<^verbatim>\<open>"type": "detection"\<close> entry is
  the constructor \<open>Detection\<close> below. The payloads of the object and pose adapters are
  passed through as they are.
\<close>

record detection_result =
  timestamp :: json
  hands :: "hand list"
  objects :: "json list"
  pose :: "json option"
  control :: "control_signal option"

text \<open>What \<^verbatim>\<open>websocket.send_json\<close> is called with.\<close>

datatype outbound =
    Detection detection_result
  | Pong json
  | ConfigAck json

text \<open>
  The process-wide globals of the module. An adapter is its \<^verbatim>\<open>detect\<close> method; the
  libraries behind it are outside the repository, so it is a parameter, taken as a
  function of the image that returns or raises.
\<close>

record globals =
  vision_processor :: "unit option"
  hand_tracker :: "(image \<Rightarrow> py_error + hand list) option"
  yolo_detector :: "(image \<Rightarrow> py_error + json list) option"
  pose_estimator :: "(image \<Rightarrow> py_error + json option) option"

text \<open>The constructors \<^verbatim>\<open>startup_event\<close> calls, each applied to the device name.\<close>

record constructors =
  CudaVisionProcessor :: "string \<Rightarrow> py_error + unit"
  HandTracker :: "string \<Rightarrow> py_error + (image \<Rightarrow> py_error + hand list)"
  YOLODetector :: "string \<Rightarrow> py_error + (image \<Rightarrow> py_error + json list)"
  PoseEstimator :: "string \<Rightarrow> py_error + (image \<Rightarrow> py_error + json option)"

definition device_name :: "bool \<Rightarrow> string" where
  "device_name cuda_available = (if cuda_available then ''cuda'' else ''cpu'')"

text \<open>
  \<^verbatim>\<open>startup_event\<close>: one \<^verbatim>\<open>try\<close> around the four constructions; the handler logs and
  re-raises. The globals assigned before the exception keep their new value. The result
  is what the hook returns or raises, and the globals it leaves.
\<close>

definition startup_event :: "bool \<Rightarrow> constructors \<Rightarrow> globals \<Rightarrow> (py_error + unit) \<times> globals" where
  "startup_event cuda_available ctors g =
     (let device = device_name cuda_available in
      case CudaVisionProcessor ctors device of
        Inl e \<Rightarrow> (Inl e, g)
      | Inr vp \<Rightarrow>
     (let g1 = g\<lparr>vision_processor := Some vp\<rparr> in
      case HandTracker ctors device of
        Inl e \<Rightarrow> (Inl e, g1)
      | Inr ht \<Rightarrow>
     (let g2 = g1\<lparr>hand_tracker := Some ht\<rparr> in
      case YOLODetector ctors device of
        Inl e \<Rightarrow> (Inl e, g2)
      | Inr yd \<Rightarrow>
     (let g3 = g2\<lparr>yolo_detector := Some yd\<rparr> in
      case PoseEstimator ctors device of
        Inl e \<Rightarrow> (Inl e, g3)
      | Inr pe \<Rightarrow> (Inr (), g3\<lparr>pose_estimator := Some pe\<rparr>)))))"

text \<open>The globals of a fresh process: every adapter is \<^verbatim>\<open>None\<close>.\<close>

definition initial_globals :: globals where
  "initial_globals =
     \<lparr>vision_processor = None, hand_tracker = None, yolo_detector = None,
      pose_estimator = None\<rparr>"

text \<open>The \<^verbatim>\<open>models_loaded\<close> entry of \<^verbatim>\<open>health_check\<close>: \<^verbatim>\<open>x is not None\<close>.\<close>

definition is_loaded :: "'a option \<Rightarrow> bool" where
  "is_loaded a = (case a of None \<Rightarrow> False | Some _ \<Rightarrow> True)"

record models_loaded =
  hand_tracker_loaded :: bool
  yolo_detector_loaded :: bool
  pose_estimator_loaded :: bool

definition health_models_loaded :: "globals \<Rightarrow> models_loaded" where
  "health_models_loaded g =
     \<lparr>hand_tracker_loaded = is_loaded (hand_tracker g),
      yolo_detector_loaded = is_loaded (yolo_detector g),
      pose_estimator_loaded = is_loaded (pose_estimator g)\<rparr>"

text \<open>
  \<^verbatim>\<open>decode_image\<close>: the library pipeline (base64, \<^verbatim>\<open>imdecode\<close>, \<^verbatim>\<open>cvtColor\<close>) is the
  parameter \<open>lib\<close>; a payload that is not a string makes \<^verbatim>\<open>b64decode\<close> raise
  \<open>TypeError\<close>. The \<^verbatim>\<open>except\<close> clause logs and re-raises, so an error stays an error.
\<close>

definition decode_image :: "(string \<Rightarrow> py_error + image) \<Rightarrow> json \<Rightarrow> py_error + image" where
  "decode_image lib base64_image =
     (case (case base64_image of JStr s \<Rightarrow> lib s | _ \<Rightarrow> Inl TypeError) of
        Inl e \<Rightarrow> Inl e
      | Inr img \<Rightarrow> Inr img)"

text \<open>The entry built for each detected hand (the list comprehension of the handler).\<close>

definition hand_entry :: "hand \<Rightarrow> hand" where
  "hand_entry h =
     \<lparr>landmarks = landmarks h,
      handedness = handedness h,
      confidence = confidence h,
      boundingBox =
        \<lparr>box_x = box_x (boundingBox h), box_y = box_y (boundingBox h),
         box_width = box_width (boundingBox h), box_height = box_height (boundingBox h)\<rparr>\<rparr>"

definition track_hands :: "globals \<Rightarrow> image \<Rightarrow> detection_result \<Rightarrow> py_error + detection_result" where
  "track_hands g img results =
     (case hand_tracker g of
        None \<Rightarrow> Inr results
      | Some detect \<Rightarrow>
          (case detect img of
             Inl e \<Rightarrow> Inl e
           | Inr hs \<Rightarrow> Inr (results\<lparr>hands := map hand_entry hs\<rparr>)))"

definition detect_objects ::
  "globals \<Rightarrow> (string \<times> json) list \<Rightarrow> image \<Rightarrow> detection_result \<Rightarrow> py_error + detection_result" where
  "detect_objects g message img results =
     (case yolo_detector g of
        None \<Rightarrow> Inr results
      | Some detect \<Rightarrow>
          if truthy (dict_get message ''detectObjects'' (JBool False))
          then (case detect img of
                  Inl e \<Rightarrow> Inl e
                | Inr objs \<Rightarrow> Inr (results\<lparr>objects := objs\<rparr>))
          else Inr results)"

definition estimate_pose ::
  "globals \<Rightarrow> (string \<times> json) list \<Rightarrow> image \<Rightarrow> detection_result \<Rightarrow> py_error + detection_result" where
  "estimate_pose g message img results =
     (case pose_estimator g of
        None \<Rightarrow> Inr results
      | Some detect \<Rightarrow>
          if truthy (dict_get message ''detectPose'' (JBool False))
          then (case detect img of
                  Inl e \<Rightarrow> Inl e
                | Inr p \<Rightarrow> Inr (results\<lparr>pose := p\<rparr>))
          else Inr results)"

definition add_control :: "image \<Rightarrow> detection_result \<Rightarrow> py_error + detection_result" where
  "add_control img results =
     (case hands results of
        [] \<Rightarrow> Inr results
      | primary_hand # _ \<Rightarrow>
          (case calculate_control_signal primary_hand (shape img) of
             Inl e \<Rightarrow> Inl e
           | Inr c \<Rightarrow> Inr (results\<lparr>control := Some c\<rparr>)))"

text \<open>
  The \<^verbatim>\<open>"frame"\<close> branch of the handler. A frame without data is skipped
  (\<^verbatim>\<open>continue\<close>); every exception leaves the branch.
\<close>

definition process_frame ::
  "globals \<Rightarrow> (string \<Rightarrow> py_error + image) \<Rightarrow> (string \<times> json) list \<Rightarrow> py_error + outbound list" where
  "process_frame g lib message =
     (let frame_data = dict_get message ''data'' JNull in
      if \<not> truthy frame_data then Inr []
      else
        case decode_image lib frame_data of
          Inl e \<Rightarrow> Inl e
        | Inr img \<Rightarrow>
       (let results = \<lparr>timestamp = dict_get message ''timestamp'' JNull,
                       hands = [], objects = [], pose = None, control = None\<rparr> in
        case track_hands g img results of
          Inl e \<Rightarrow> Inl e
        | Inr r1 \<Rightarrow>
       (case detect_objects g message img r1 of
          Inl e \<Rightarrow> Inl e
        | Inr r2 \<Rightarrow>
       (case estimate_pose g message img r2 of
          Inl e \<Rightarrow> Inl e
        | Inr r3 \<Rightarrow>
       (case add_control img r3 of
          Inl e \<Rightarrow> Inl e
        | Inr r4 \<Rightarrow> Inr [Detection r4])))))"

text \<open>
  One turn of the \<^verbatim>\<open>while True\<close> loop after \<^verbatim>\<open>json.loads\<close>: what is sent, or the
  exception raised. A JSON value that is not an object has no \<^verbatim>\<open>get\<close>.
\<close>

definition handle_message ::
  "globals \<Rightarrow> (string \<Rightarrow> py_error + image) \<Rightarrow> json \<Rightarrow> py_error + outbound list" where
  "handle_message g lib msg =
     (case msg of
        JObj message \<Rightarrow>
          if dict_get message ''type'' JNull = JStr ''frame'' then process_frame g lib message
          else if dict_get message ''type'' JNull = JStr ''ping''
            then Inr [Pong (dict_get message ''timestamp'' JNull)]
          else if dict_get message ''type'' JNull = JStr ''config''
            then Inr [ConfigAck (dict_get message ''config'' (JObj []))]
          else Inr []
      | _ \<Rightarrow> Inl AttributeError)"

text \<open>
  What \<^verbatim>\<open>receive_text\<close> yields: a text that parses, a text on which \<^verbatim>\<open>json.loads\<close>
  raises, or the disconnect of the client.
\<close>

datatype inbound =
    Text json
  | InvalidText
  | Disconnect

text \<open>
  Where the handler stands once the given input is consumed: still waiting in
  \<^verbatim>\<open>receive_text\<close> (the session is open), left through \<^verbatim>\<open>except WebSocketDisconnect\<close>,
  or left through \<^verbatim>\<open>except Exception\<close>, which logs and calls \<^verbatim>\<open>websocket.close()\<close>.
\<close>

datatype session_end =
    Receiving
  | Disconnected
  | Closed py_error

text \<open>
  \<^verbatim>\<open>websocket_vision\<close>: the messages sent, in send order, and where the handler stands.
  The \<^verbatim>\<open>try\<close> is around the whole loop, so the first exception ends it.
\<close>

fun websocket_vision ::
  "globals \<Rightarrow> (string \<Rightarrow> py_error + image) \<Rightarrow> inbound list \<Rightarrow> outbound list \<times> session_end" where
  "websocket_vision g lib [] = ([], Receiving)"
| "websocket_vision g lib (Disconnect # rest) = ([], Disconnected)"
| "websocket_vision g lib (InvalidText # rest) = ([], Closed JSONDecodeError)"
| "websocket_vision g lib (Text msg # rest) =
     (case handle_message g lib msg of
        Inl e \<Rightarrow> ([], Closed e)
      | Inr sent \<Rightarrow>
          (case websocket_vision g lib rest of
             (later, fin) \<Rightarrow> (sent @ later, fin)))"

section \<open>Concrete inputs\<close>

text \<open>Hands, adapters and messages on which the definitions are evaluated below.\<close>

definition sample_hand :: hand where
  "sample_hand =
     \<lparr>landmarks = [[1/5, 2/5, -1/10], [3/5, 4/5, 3/10]],
      handedness = ''Right'',
      confidence = 9/10,
      boundingBox = \<lparr>box_x = 1/5, box_y = 2/5, box_width = 2/5, box_height = 2/5\<rparr>\<rparr>"

definition sample_control :: control_signal where
  "sample_control =
     \<lparr>direction = \<lparr>dir_x = - 1 / 5, dir_y = - 1 / 5\<rparr>, thrust = 2 / 5, action = ''IDLE''\<rparr>"

definition near_landmark :: landmark where
  "near_landmark = [1/2, 1/2, -3/5]"

definition near_hand :: hand where
  "near_hand =
     \<lparr>landmarks = replicate 21 near_landmark,
      handedness = ''Left'',
      confidence = 9/10,
      boundingBox = \<lparr>box_x = 1/2, box_y = 1/2, box_width = 0, box_height = 0\<rparr>\<rparr>"

definition near_fingertip :: hand where
  "near_fingertip =
     \<lparr>landmarks = [near_landmark],
      handedness = ''Left'',
      confidence = 9/10,
      boundingBox = \<lparr>box_x = 1/2, box_y = 1/2, box_width = 0, box_height = 0\<rparr>\<rparr>"

definition near_fingertip_control :: control_signal where
  "near_fingertip_control =
     \<lparr>direction = \<lparr>dir_x = 0, dir_y = 0\<rparr>, thrust = 1, action = ''IDLE''\<rparr>"

definition empty_hand :: hand where
  "empty_hand =
     \<lparr>landmarks = [],
      handedness = ''Left'',
      confidence = 9/10,
      boundingBox = \<lparr>box_x = 0, box_y = 0, box_width = 0, box_height = 0\<rparr>\<rparr>"

definition ragged_hand :: hand where
  "ragged_hand =
     \<lparr>landmarks = [[1/2, 1/2, -3/5], [1/2, 1/2]],
      handedness = ''Left'',
      confidence = 9/10,
      boundingBox = \<lparr>box_x = 1/2, box_y = 1/2, box_width = 0, box_height = 0\<rparr>\<rparr>"

definition sample_image :: image where
  "sample_image = \<lparr>shape = [480, 640, 3], pixels = []\<rparr>"

definition sample_decode :: "string \<Rightarrow> py_error + image" where
  "sample_decode s = (if s = ''QUJD'' then Inr sample_image else Inl (LibraryError ''cv2.error''))"

definition sample_hand_detect :: "image \<Rightarrow> py_error + hand list" where
  "sample_hand_detect img = Inr [sample_hand]"

definition sample_object :: json where
  "sample_object = JObj [(''class'', JStr ''cup''), (''classId'', JNum 41)]"

definition sample_object_detect :: "image \<Rightarrow> py_error + json list" where
  "sample_object_detect img = Inr [sample_object]"

definition sample_pose_detect :: "image \<Rightarrow> py_error + json option" where
  "sample_pose_detect img = Inr None"

definition sample_globals :: globals where
  "sample_globals =
     \<lparr>vision_processor = Some (), hand_tracker = Some sample_hand_detect,
      yolo_detector = Some sample_object_detect, pose_estimator = Some sample_pose_detect\<rparr>"

definition sample_frame :: "(string \<times> json) list" where
  "sample_frame = [(''type'', JStr ''frame''), (''data'', JStr ''QUJD''), (''timestamp'', JNum 1)]"

definition objects_frame :: "(string \<times> json) list" where
  "objects_frame = [(''type'', JStr ''frame''), (''data'', JStr ''QUJD''), (''timestamp'', JNum 1),
                    (''detectObjects'', JBool True)]"

definition corrupt_frame :: "(string \<times> json) list" where
  "corrupt_frame = [(''type'', JStr ''frame''), (''data'', JStr ''!!''), (''timestamp'', JNum 1)]"

definition sample_ping :: "(string \<times> json) list" where
  "sample_ping = [(''type'', JStr ''ping''), (''timestamp'', JNum 2)]"

definition objects_config :: "(string \<times> json) list" where
  "objects_config = [(''type'', JStr ''config''),
                     (''config'', JObj [(''detectObjects'', JBool True)])]"

definition sample_result :: "json \<Rightarrow> json list \<Rightarrow> detection_result" where
  "sample_result ts objs =
     \<lparr>timestamp = ts, hands = [sample_hand], objects = objs, pose = None,
      control = Some sample_control\<rparr>"

definition failing_constructors :: constructors where
  "failing_constructors =
     \<lparr>CudaVisionProcessor = (\<lambda>device. Inr ()),
      HandTracker = (\<lambda>device. Inl ImportError),
      YOLODetector = (\<lambda>device. Inr sample_object_detect),
      PoseEstimator = (\<lambda>device. Inr sample_pose_detect)\<rparr>"

section \<open>Properties of the control signal derivation\<close>

lemma sum_coord_ok:
  "list_all (\<lambda>l. i < length l) lms \<Longrightarrow>
   sum_coord i acc lms = Inr (acc + sum_list (map (\<lambda>l. l ! i) lms))"
  by (induction lms arbitrary: acc) (simp_all add: add.assoc)

lemma sum_coord_fail:
  "\<not> list_all (\<lambda>l. i < length l) lms \<Longrightarrow> sum_coord i acc lms = Inl IndexError"
  by (induction lms arbitrary: acc) auto

lemma coord_mean_ok:
  "lms \<noteq> [] \<Longrightarrow> list_all (\<lambda>l. i < length l) lms \<Longrightarrow>
   coord_mean i lms = Inr (spec_mean i lms)"
  by (simp add: coord_mean_def sum_coord_ok py_truediv_def spec_mean_def)

lemma coord_mean_empty: "coord_mean i [] = Inl ZeroDivisionError"
  by (simp add: coord_mean_def py_truediv_def)

lemma list_all_mono_len:
  "list_all (\<lambda>l. Suc i \<le> length l) lms \<Longrightarrow> j \<le> i \<Longrightarrow> list_all (\<lambda>l. j < length l) lms"
  by (induction lms) auto

lemma well_shaped_xy:
  assumes "well_shaped lms"
  shows "list_all (\<lambda>l. 0 < length l) lms" and "list_all (\<lambda>l. 1 < length l) lms"
proof -
  from assms have h: "list_all (\<lambda>l. Suc 1 \<le> length l) lms"
    by (simp add: well_shaped_def numeral_2_eq_2)
  show "list_all (\<lambda>l. 0 < length l) lms"
    using list_all_mono_len [OF h, of 0] by simp
  show "list_all (\<lambda>l. 1 < length l) lms"
    using list_all_mono_len [OF h, of 1] by simp
qed

lemma avg_depth_ok:
  assumes "lms \<noteq> []" and "well_shaped lms"
  shows "avg_depth lms = Inr (spec_avg_z lms)"
proof (cases lms)
  case Nil
  with assms show ?thesis by simp
next
  case (Cons l0 rest)
  show ?thesis
  proof (cases "2 < length l0")
    case True
    with assms Cons have dp: "depth_present lms"
      by (simp add: well_shaped_def)
    then have "coord_mean 2 lms = Inr (spec_mean 2 lms)"
      using assms(1) by (simp add: coord_mean_ok depth_present_def)
    with True Cons dp show ?thesis
      by (simp add: avg_depth_def spec_avg_z_def)
  next
    case False
    with Cons have "\<not> depth_present lms"
      by (simp add: depth_present_def)
    with False Cons show ?thesis
      by (simp add: avg_depth_def spec_avg_z_def)
  qed
qed

lemma clamp_max_min: "max 0 (min 1 v) = spec_clamp v 0 1"
  by (simp add: spec_clamp_def max_def min_def)

lemma calculate_defined:
  assumes "landmarks h \<noteq> []" and "well_shaped (landmarks h)"
  shows "calculate_control_signal h shp =
           Inr \<lparr>direction = \<lparr>dir_x = spec_direction_x (landmarks h),
                              dir_y = spec_direction_y (landmarks h)\<rparr>,
                thrust = spec_thrust (landmarks h),
                action = (if 21 \<le> length (landmarks h) \<and> 0.7 < spec_thrust (landmarks h)
                          then ''BOOST'' else ''IDLE'')\<rparr>"
proof -
  have x: "coord_mean 0 (landmarks h) = Inr (spec_mean 0 (landmarks h))"
    using assms well_shaped_xy(1) by (simp add: coord_mean_ok)
  have y: "coord_mean 1 (landmarks h) = Inr (spec_mean 1 (landmarks h))"
    using assms well_shaped_xy(2) by (simp add: coord_mean_ok)
  have z: "avg_depth (landmarks h) = Inr (spec_avg_z (landmarks h))"
    using assms by (rule avg_depth_ok)
  show ?thesis
    unfolding calculate_control_signal_def Let_def x y z
    by (simp add: clamp_max_min spec_direction_x_def spec_direction_y_def spec_thrust_def)
qed

lemma coord_mean_Inr:
  assumes "coord_mean i lms = Inr m"
  shows "lms \<noteq> []" and "list_all (\<lambda>l. i < length l) lms"
proof -
  show "lms \<noteq> []"
    using assms by (auto simp: coord_mean_empty)
  show "list_all (\<lambda>l. i < length l) lms"
  proof (rule ccontr)
    assume "\<not> list_all (\<lambda>l. i < length l) lms"
    then have "sum_coord i 0 lms = Inl IndexError" by (rule sum_coord_fail)
    with assms show False by (simp add: coord_mean_def)
  qed
qed

lemma avg_depth_Inr:
  assumes "avg_depth lms = Inr z" and "2 < length (hd lms)"
  shows "depth_present lms"
proof (cases lms)
  case Nil
  with assms show ?thesis by (simp add: avg_depth_def)
next
  case (Cons l0 rest)
  with assms have "coord_mean 2 lms = Inr z" by (simp add: avg_depth_def)
  then show ?thesis unfolding depth_present_def by (rule coord_mean_Inr(2))
qed

lemma calculate_Inr_parts:
  assumes "calculate_control_signal h shp = Inr c"
  shows "\<exists>cx cy z. coord_mean 0 (landmarks h) = Inr cx \<and> coord_mean 1 (landmarks h) = Inr cy
            \<and> avg_depth (landmarks h) = Inr z"
  using assms unfolding calculate_control_signal_def Let_def
  by (auto split: sum.splits)

lemma calculate_Inr_shape:
  assumes "calculate_control_signal h shp = Inr c"
  shows "landmarks h \<noteq> []" and "well_shaped (landmarks h)"
proof -
  from calculate_Inr_parts [OF assms] obtain cx cy z where
    x: "coord_mean 0 (landmarks h) = Inr cx" and
    y: "coord_mean 1 (landmarks h) = Inr cy" and
    z: "avg_depth (landmarks h) = Inr z" by blast
  show ne: "landmarks h \<noteq> []" using x by (rule coord_mean_Inr(1))
  have "list_all (\<lambda>l. 1 < length l) (landmarks h)" using y by (rule coord_mean_Inr(2))
  then have two: "list_all (\<lambda>l. 2 \<le> length l) (landmarks h)"
    by (induction "landmarks h") (auto simp: list_all_iff)
  from ne obtain l0 rest where c: "landmarks h = l0 # rest" by (cases "landmarks h") auto
  have "2 < length l0 \<longrightarrow> depth_present (landmarks h)"
    using avg_depth_Inr [OF z] c by simp
  with two c show "well_shaped (landmarks h)" by (simp add: well_shaped_def)
qed

lemma coord_mean_fail:
  "\<not> list_all (\<lambda>l. i < length l) lms \<Longrightarrow> coord_mean i lms = Inl IndexError"
  by (simp add: coord_mean_def sum_coord_fail)

lemma calculate_unreadable:
  assumes ne: "landmarks h \<noteq> []" and nw: "\<not> well_shaped (landmarks h)"
  shows "calculate_control_signal h shp = Inl IndexError"
proof (cases "list_all (\<lambda>l. 0 < length l) (landmarks h)")
  case False
  then have "coord_mean 0 (landmarks h) = Inl IndexError" by (rule coord_mean_fail)
  then show ?thesis by (simp add: calculate_control_signal_def)
next
  case x: True
  with ne have cx: "coord_mean 0 (landmarks h) = Inr (spec_mean 0 (landmarks h))"
    by (simp add: coord_mean_ok)
  show ?thesis
  proof (cases "list_all (\<lambda>l. 1 < length l) (landmarks h)")
    case False
    then have cy: "coord_mean 1 (landmarks h) = Inl IndexError" by (rule coord_mean_fail)
    show ?thesis unfolding calculate_control_signal_def Let_def cx cy by simp
  next
    case y: True
    with ne have cy: "coord_mean 1 (landmarks h) = Inr (spec_mean 1 (landmarks h))"
      by (simp add: coord_mean_ok)
    from y have two: "list_all (\<lambda>l. 2 \<le> length l) (landmarks h)"
      by (auto simp: list_all_iff)
    from ne obtain l0 rest where c: "landmarks h = l0 # rest"
      by (cases "landmarks h") auto
    from nw two c have first: "2 < length l0" and nd: "\<not> depth_present (landmarks h)"
      by (auto simp: well_shaped_def)
    from nd have "coord_mean 2 (landmarks h) = Inl IndexError"
      unfolding depth_present_def by (rule coord_mean_fail)
    with first c have cz: "avg_depth (landmarks h) = Inl IndexError"
      by (simp add: avg_depth_def)
    show ?thesis unfolding calculate_control_signal_def Let_def cx cy cz by simp
  qed
qed

lemma calculate_returns_iff:
  "(\<exists>c. calculate_control_signal h shp = Inr c)
     = (landmarks h \<noteq> [] \<and> well_shaped (landmarks h))"
  using calculate_Inr_shape calculate_defined by blast

lemma depth_present_well_shaped: "depth_present lms \<Longrightarrow> well_shaped lms"
  unfolding well_shaped_def depth_present_def
  by (auto simp: list_all_iff less_imp_le split: list.splits)

lemma sum_list_unit_bounds:
  "list_all (\<lambda>l. 0 \<le> f l \<and> f l \<le> (1::real)) lms \<Longrightarrow>
   0 \<le> sum_list (map f lms) \<and> sum_list (map f lms) \<le> real (length lms)"
  by (induction lms) auto

lemma spec_mean_unit_bounds:
  assumes "lms \<noteq> []" and "list_all (\<lambda>l. 0 \<le> l ! i \<and> l ! i \<le> (1::real)) lms"
  shows "0 \<le> spec_mean i lms" and "spec_mean i lms \<le> 1"
proof -
  from assms(1) have pos: "0 < real (length lms)" by simp
  from sum_list_unit_bounds [OF assms(2)]
  have b: "0 \<le> sum_list (map (\<lambda>l. l ! i) lms)" "sum_list (map (\<lambda>l. l ! i) lms) \<le> real (length lms)"
    by simp_all
  show "0 \<le> spec_mean i lms" using b(1) by (simp add: spec_mean_def)
  show "spec_mean i lms \<le> 1" using b(2) pos by (simp add: spec_mean_def divide_le_eq)
qed

lemma spec_thrust_bounds: "0 \<le> spec_thrust lms \<and> spec_thrust lms \<le> 1"
  by (simp add: spec_thrust_def spec_clamp_def)

lemma sample_hand_control:
  "calculate_control_signal sample_hand [480, 640, 3] = Inr sample_control"
  by (simp add: calculate_control_signal_def sample_hand_def sample_control_def
      coord_mean_def py_truediv_def avg_depth_def)

lemma near_fingertip_control_eq:
  "calculate_control_signal near_fingertip [480, 640, 3] = Inr near_fingertip_control"
  by (simp add: calculate_control_signal_def near_fingertip_def near_fingertip_control_def
      near_landmark_def coord_mean_def py_truediv_def avg_depth_def)

section \<open>The claims about the control signal\<close>

text \<open>
  C3. For a hand whose landmark list is not empty (and has a shape the derivation can
  read: every landmark has x and y, and when the first landmark carries a depth all of
  them do), \<open>calculate_control_signal\<close> returns, and its direction and thrust
  are those of the reference definition: \<open>direction.x = (mean x - 0.5) * 2\<close>,
  \<open>direction.y = (0.5 - mean y) * 2\<close>, \<open>thrust = clamp (1 - (avg_z + 0.5)) 0 1\<close>
  with \<open>avg_z\<close> the mean depth when the depth is present and 0 otherwise.
\<close>

theorem control_signal_matches_reference:
  assumes "landmarks h \<noteq> []" and "well_shaped (landmarks h)"
  shows "\<exists>c. calculate_control_signal h shp = Inr c
           \<and> dir_x (direction c) = spec_direction_x (landmarks h)
           \<and> dir_y (direction c) = spec_direction_y (landmarks h)
           \<and> thrust c = spec_thrust (landmarks h)"
  using calculate_defined [OF assms, of shp] by simp

theorem control_signal_matches_reference_witness:
  "landmarks sample_hand \<noteq> [] \<and> well_shaped (landmarks sample_hand)
   \<and> (\<exists>c. calculate_control_signal sample_hand [480, 640, 3] = Inr c
           \<and> dir_x (direction c) = - 1 / 5
           \<and> dir_y (direction c) = - 1 / 5
           \<and> thrust c = 2 / 5)"
proof -
  have ne: "landmarks sample_hand \<noteq> []" by (simp add: sample_hand_def)
  have ws: "well_shaped (landmarks sample_hand)"
    by (simp add: sample_hand_def well_shaped_def depth_present_def)
  have dx: "spec_direction_x (landmarks sample_hand) = - 1 / 5"
    by (simp add: sample_hand_def spec_direction_x_def spec_mean_def)
  have dy: "spec_direction_y (landmarks sample_hand) = - 1 / 5"
    by (simp add: sample_hand_def spec_direction_y_def spec_mean_def)
  have th: "spec_thrust (landmarks sample_hand) = 2 / 5"
    by (simp add: sample_hand_def spec_thrust_def spec_avg_z_def depth_present_def
        spec_mean_def spec_clamp_def)
  show ?thesis
    using control_signal_matches_reference [OF ne ws, of "[480, 640, 3]"] ne ws
    by (simp add: dx dy th)
qed

text \<open>
  C5. A hand with exactly 21 landmarks, each carrying a depth, whose mean depth is at
  most \<open>-0.5\<close> gets a control signal with thrust 1 and action \<open>BOOST\<close>.
\<close>

theorem full_hand_near_camera_boosts:
  assumes "length (landmarks h) = 21" and "depth_present (landmarks h)"
    and "spec_mean 2 (landmarks h) \<le> - 0.5"
  shows "\<exists>c. calculate_control_signal h shp = Inr c \<and> thrust c = 1 \<and> action c = ''BOOST''"
proof -
  from assms(1) have ne: "landmarks h \<noteq> []" by auto
  have ws: "well_shaped (landmarks h)" using assms(2) by (rule depth_present_well_shaped)
  have th: "spec_thrust (landmarks h) = 1"
    using assms(2,3) by (simp add: spec_thrust_def spec_avg_z_def spec_clamp_def)
  show ?thesis
    using calculate_defined [OF ne ws, of shp] assms(1) by (simp add: th)
qed

theorem full_hand_near_camera_boosts_witness:
  "length (landmarks near_hand) = 21 \<and> depth_present (landmarks near_hand)
   \<and> spec_mean 2 (landmarks near_hand) \<le> - 0.5
   \<and> (\<exists>c. calculate_control_signal near_hand [480, 640, 3] = Inr c
           \<and> thrust c = 1 \<and> action c = ''BOOST'')"
proof -
  have a: "length (landmarks near_hand) = 21" by (simp add: near_hand_def)
  have b: "depth_present (landmarks near_hand)"
    by (simp add: near_hand_def depth_present_def near_landmark_def list_all_iff)
  have c: "spec_mean 2 (landmarks near_hand) \<le> - 0.5"
    by (simp add: near_hand_def spec_mean_def near_landmark_def map_replicate_const sum_list_replicate)
  show ?thesis
    using full_hand_near_camera_boosts [OF a b c, of "[480, 640, 3]"] a b c by simp
qed

text \<open>
  C6. Every control signal the derivation returns has its thrust in \<open>[0, 1]\<close>; when
  the x and y of every landmark lie in \<open>[0, 1]\<close>, both components of the direction lie
  in \<open>[-1, 1]\<close>.
\<close>

theorem control_signal_bounds:
  assumes "calculate_control_signal h shp = Inr c"
  shows "0 \<le> thrust c \<and> thrust c \<le> 1 \<and>
         (unit_square (landmarks h) \<longrightarrow>
            - 1 \<le> dir_x (direction c) \<and> dir_x (direction c) \<le> 1 \<and>
            - 1 \<le> dir_y (direction c) \<and> dir_y (direction c) \<le> 1)"
proof -
  have ne: "landmarks h \<noteq> []" and ws: "well_shaped (landmarks h)"
    using calculate_Inr_shape [OF assms] by simp_all
  from calculate_defined [OF ne ws, of shp] assms
  have t: "thrust c = spec_thrust (landmarks h)"
    and x: "dir_x (direction c) = spec_direction_x (landmarks h)"
    and y: "dir_y (direction c) = spec_direction_y (landmarks h)"
    by auto
  have dirs: "- 1 \<le> spec_direction_x (landmarks h) \<and> spec_direction_x (landmarks h) \<le> 1 \<and>
      - 1 \<le> spec_direction_y (landmarks h) \<and> spec_direction_y (landmarks h) \<le> 1"
    if us: "unit_square (landmarks h)"
  proof -
    from us have ux: "list_all (\<lambda>l. 0 \<le> l ! 0 \<and> l ! 0 \<le> (1::real)) (landmarks h)"
      and uy: "list_all (\<lambda>l. 0 \<le> l ! 1 \<and> l ! 1 \<le> (1::real)) (landmarks h)"
      by (simp_all add: unit_square_def list_all_iff)
    from spec_mean_unit_bounds [OF ne ux] spec_mean_unit_bounds [OF ne uy]
    show ?thesis by (simp add: spec_direction_x_def spec_direction_y_def)
  qed
  show ?thesis using spec_thrust_bounds [of "landmarks h"] dirs by (simp add: t x y)
qed

theorem control_signal_bounds_witness:
  "calculate_control_signal sample_hand [480, 640, 3] = Inr sample_control
   \<and> unit_square (landmarks sample_hand)
   \<and> 0 \<le> thrust sample_control \<and> thrust sample_control \<le> 1
   \<and> - 1 \<le> dir_x (direction sample_control) \<and> dir_x (direction sample_control) \<le> 1
   \<and> - 1 \<le> dir_y (direction sample_control) \<and> dir_y (direction sample_control) \<le> 1"
proof -
  have us: "unit_square (landmarks sample_hand)"
    by (simp add: unit_square_def sample_hand_def)
  show ?thesis
    using control_signal_bounds [OF sample_hand_control] us sample_hand_control by simp
qed

text \<open>
  C8. A landmark list with fewer than 21 points gets the action \<open>IDLE\<close>, whatever the
  thrust is.
\<close>

theorem partial_hand_is_idle:
  assumes "length (landmarks h) < 21" and "calculate_control_signal h shp = Inr c"
  shows "action c = ''IDLE''"
  using assms unfolding calculate_control_signal_def Let_def
  by (auto split: sum.splits)

theorem partial_hand_is_idle_witness:
  "length (landmarks near_fingertip) < 21
   \<and> calculate_control_signal near_fingertip [480, 640, 3] = Inr near_fingertip_control
   \<and> thrust near_fingertip_control = 1
   \<and> action near_fingertip_control = ''IDLE''"
proof -
  have short: "length (landmarks near_fingertip) < 21"
    by (simp add: near_fingertip_def)
  have t: "thrust near_fingertip_control = 1"
    by (simp add: near_fingertip_control_def)
  show ?thesis
    using partial_hand_is_idle [OF short near_fingertip_control_eq] short
      near_fingertip_control_eq t
    by simp
qed

text \<open>
  C10. The claim that the derivation returns for every hand with at least one landmark
  fails: a list whose first landmark carries a depth and whose second does not is not
  empty, and the depth sum raises \<open>IndexError\<close> on it.
\<close>

theorem control_signal_needs_landmarks_counterexample:
  "landmarks ragged_hand \<noteq> []
   \<and> calculate_control_signal ragged_hand [480, 640, 3] = Inl IndexError"
  by (simp add: ragged_hand_def calculate_control_signal_def coord_mean_def py_truediv_def
      avg_depth_def)

text \<open>
  C10, as amended. The derivation is total only under a precondition on the landmark
  list that its interface does not state: the list is not empty, every landmark has its
  x and y, and when the first landmark carries a depth all of them do. Under it the
  derivation returns a control signal. On an empty list it raises
  \<open>ZeroDivisionError\<close> while computing the centre (the depth check, which reads the
  first landmark, would raise \<open>IndexError\<close> there as well); on a list that is not
  empty and misses a coordinate the derivation reads it raises \<open>IndexError\<close>.
\<close>

theorem control_signal_needs_readable_landmarks:
  "(if landmarks h = [] then calculate_control_signal h shp = Inl ZeroDivisionError
    else if well_shaped (landmarks h) then (\<exists>c. calculate_control_signal h shp = Inr c)
    else calculate_control_signal h shp = Inl IndexError)
   \<and> coord_mean 0 [] = Inl ZeroDivisionError \<and> avg_depth [] = Inl IndexError"
proof -
  have e: "calculate_control_signal h shp = Inl ZeroDivisionError" if "landmarks h = []"
    using that by (simp add: calculate_control_signal_def coord_mean_empty)
  have r: "\<exists>c. calculate_control_signal h shp = Inr c"
    if "landmarks h \<noteq> []" and "well_shaped (landmarks h)"
    using calculate_defined [OF that, of shp] by simp
  have u: "calculate_control_signal h shp = Inl IndexError"
    if "landmarks h \<noteq> []" and "\<not> well_shaped (landmarks h)"
    using that by (rule calculate_unreadable)
  show ?thesis using e r u by (simp add: coord_mean_empty avg_depth_def)
qed

theorem control_signal_needs_readable_landmarks_witness:
  "calculate_control_signal empty_hand [480, 640, 3] = Inl ZeroDivisionError
   \<and> well_shaped (landmarks sample_hand)
   \<and> (\<exists>c. calculate_control_signal sample_hand [480, 640, 3] = Inr c)
   \<and> \<not> well_shaped (landmarks ragged_hand)
   \<and> calculate_control_signal ragged_hand [480, 640, 3] = Inl IndexError"
proof -
  have n: "well_shaped (landmarks sample_hand)"
    by (simp add: sample_hand_def well_shaped_def depth_present_def)
  have g: "\<not> well_shaped (landmarks ragged_hand)"
    by (simp add: ragged_hand_def well_shaped_def depth_present_def)
  have e0: "landmarks empty_hand = []" by (simp add: empty_hand_def)
  have n0: "landmarks sample_hand \<noteq> []" by (simp add: sample_hand_def)
  have g0: "landmarks ragged_hand \<noteq> []" by (simp add: ragged_hand_def)
  show ?thesis
    using control_signal_needs_readable_landmarks [of empty_hand "[480, 640, 3]"]
      control_signal_needs_readable_landmarks [of sample_hand "[480, 640, 3]"]
      control_signal_needs_readable_landmarks [of ragged_hand "[480, 640, 3]"]
      n g e0 n0 g0
    by simp
qed

section \<open>Properties of the session handler\<close>

lemmas sample_defs = sample_image_def sample_decode_def sample_hand_detect_def
  sample_object_detect_def sample_pose_detect_def sample_globals_def sample_frame_def
  objects_frame_def corrupt_frame_def sample_ping_def
  objects_config_def sample_result_def

lemma hand_entry_id: "hand_entry h = h"
  by (simp add: hand_entry_def)

lemma process_sample_frame:
  "process_frame sample_globals sample_decode sample_frame = Inr [Detection (sample_result (JNum 1) [])]"
  unfolding process_frame_def
  by (simp add: sample_defs decode_image_def track_hands_def
      detect_objects_def estimate_pose_def add_control_def dict_get_def hand_entry_id
      sample_hand_control)


lemma track_hands_keeps:
  assumes "track_hands g img r = Inr r'"
  shows "control r' = control r" and "timestamp r' = timestamp r"
  using assms by (auto simp: track_hands_def split: option.splits sum.splits)

lemma detect_objects_keeps:
  assumes "detect_objects g m img r = Inr r'"
  shows "hands r' = hands r" and "control r' = control r" and "timestamp r' = timestamp r"
  using assms by (auto simp: detect_objects_def split: option.splits sum.splits if_splits)

lemma estimate_pose_keeps:
  assumes "estimate_pose g m img r = Inr r'"
  shows "hands r' = hands r" and "control r' = control r" and "timestamp r' = timestamp r"
  using assms by (auto simp: estimate_pose_def split: option.splits sum.splits if_splits)

lemma add_control_sets:
  assumes "add_control img r = Inr r'" and "control r = None"
  shows "(control r' \<noteq> None) = (hands r' \<noteq> [])" and "timestamp r' = timestamp r"
  using assms by (auto simp: add_control_def split: list.splits sum.splits)

lemma process_frame_sent:
  assumes "process_frame g lib m = Inr sent"
  shows "sent = [] \<or> (\<exists>r. sent = [Detection r]
            \<and> (control r \<noteq> None) = (hands r \<noteq> [])
            \<and> timestamp r = dict_get m ''timestamp'' JNull)"
proof (cases "truthy (dict_get m ''data'' JNull)")
  case False
  with assms show ?thesis by (simp add: process_frame_def)
next
  case True
  let ?r0 = "\<lparr>timestamp = dict_get m ''timestamp'' JNull,
               hands = [], objects = [], pose = None, control = None\<rparr>"
  from assms True obtain img r1 r2 r3 r4 where
    t: "track_hands g img ?r0 = Inr r1" and
    d: "detect_objects g m img r1 = Inr r2" and
    e: "estimate_pose g m img r2 = Inr r3" and
    a: "add_control img r3 = Inr r4" and
    s: "sent = [Detection r4]"
    unfolding process_frame_def Let_def
    by (auto split: sum.splits)
  have c3: "control r3 = None"
    using track_hands_keeps(1) [OF t] detect_objects_keeps(2) [OF d] estimate_pose_keeps(2) [OF e]
    by simp
  have t3: "timestamp r3 = dict_get m ''timestamp'' JNull"
    using track_hands_keeps(2) [OF t] detect_objects_keeps(3) [OF d] estimate_pose_keeps(3) [OF e]
    by simp
  from add_control_sets [OF a c3] t3 s show ?thesis by simp
qed


lemma handle_message_sent:
  assumes "handle_message g lib msg = Inr sent" and "Detection r \<in> set sent"
  shows "(control r \<noteq> None) = (hands r \<noteq> [])"
proof (cases msg)
  case (JObj m)
  show ?thesis
  proof (cases "dict_get m ''type'' JNull = JStr ''frame''")
    case True
    with assms(1) JObj have "process_frame g lib m = Inr sent"
      by (simp add: handle_message_def)
    from process_frame_sent [OF this] assms(2) show ?thesis by auto
  next
    case False
    with assms JObj show ?thesis
      by (auto simp: handle_message_def split: if_splits)
  qed
qed (use assms in \<open>simp_all add: handle_message_def\<close>)

lemma handle_frame: "dict_get m ''type'' JNull = JStr ''frame'' \<Longrightarrow>
  handle_message g lib (JObj m) = process_frame g lib m"
  by (simp add: handle_message_def)


lemma handle_config: "dict_get m ''type'' JNull = JStr ''config'' \<Longrightarrow>
  handle_message g lib (JObj m) = Inr [ConfigAck (dict_get m ''config'' (JObj []))]"
  by (simp add: handle_message_def)

lemma process_frame_decode_error:
  assumes "truthy (dict_get m ''data'' JNull)"
    and "decode_image lib (dict_get m ''data'' JNull) = Inl e"
  shows "process_frame g lib m = Inl e"
  using assms by (simp add: process_frame_def)

lemma process_objects_frame:
  "process_frame sample_globals sample_decode objects_frame
     = Inr [Detection (sample_result (JNum 1) [sample_object])]"
  unfolding process_frame_def
  by (simp add: sample_defs decode_image_def track_hands_def
      detect_objects_def estimate_pose_def add_control_def dict_get_def hand_entry_id
      sample_hand_control)

lemma process_corrupt_frame:
  "process_frame sample_globals sample_decode corrupt_frame = Inl (LibraryError ''cv2.error'')"
  by (simp add: process_frame_def sample_defs decode_image_def dict_get_def)

lemma sample_types:
  "dict_get sample_frame ''type'' JNull = JStr ''frame''"
  "dict_get objects_frame ''type'' JNull = JStr ''frame''"
  "dict_get corrupt_frame ''type'' JNull = JStr ''frame''"
  "dict_get sample_ping ''type'' JNull = JStr ''ping''"
  "dict_get objects_config ''type'' JNull = JStr ''config''"
  by (simp_all add: sample_defs dict_get_def)

section \<open>The claims about the session handler and the startup\<close>

text \<open>
  C1. The claim that a decode or orchestration failure on one frame leaves the session
  open fails: a frame whose payload does not decode ends the session, and the ping that
  follows it is never answered.
\<close>

theorem frame_failure_closes_session_counterexample:
  "websocket_vision sample_globals sample_decode [Text (JObj corrupt_frame), Text (JObj sample_ping)]
     = ([], Closed (LibraryError ''cv2.error''))"
  by (simp add: handle_frame sample_types process_corrupt_frame)

text \<open>
  C1, as amended. When the processing of a frame message raises (the decoder, an
  adapter or the control signal derivation), nothing is sent for that frame and the
  exception leaves the receive loop: the handler logs it and closes the connection with
  that error, and no later message of the session is processed.
\<close>

theorem frame_failure_closes_session:
  assumes "dict_get m ''type'' JNull = JStr ''frame''"
    and "process_frame g lib m = Inl e"
  shows "websocket_vision g lib (Text (JObj m) # rest) = ([], Closed e)"
  using assms by (simp add: handle_frame)

theorem frame_failure_closes_session_witness:
  "dict_get corrupt_frame ''type'' JNull = JStr ''frame''
   \<and> process_frame sample_globals sample_decode corrupt_frame = Inl (LibraryError ''cv2.error'')
   \<and> websocket_vision sample_globals sample_decode
        [Text (JObj corrupt_frame), Text (JObj sample_frame)]
      = ([], Closed (LibraryError ''cv2.error''))"
  using frame_failure_closes_session [OF sample_types(3) process_corrupt_frame,
      of "[Text (JObj sample_frame)]"] sample_types(3) process_corrupt_frame
  by simp

text \<open>
  C2. The claim that startup tolerates the failure of one adapter fails: when the
  hand tracker cannot be constructed, \<open>startup_event\<close> raises that error, and the
  object and pose adapters, which would have loaded, are not constructed (all three
  \<open>models_loaded\<close> flags are false).
\<close>

theorem startup_completes_iff_all_load_counterexample:
  "startup_event False failing_constructors initial_globals
     = (Inl ImportError, initial_globals\<lparr>vision_processor := Some ()\<rparr>)
   \<and> health_models_loaded (snd (startup_event False failing_constructors initial_globals))
     = \<lparr>hand_tracker_loaded = False, yolo_detector_loaded = False,
        pose_estimator_loaded = False\<rparr>"
  by (simp add: startup_event_def failing_constructors_def initial_globals_def
      health_models_loaded_def is_loaded_def)

text \<open>
  C2, as amended. \<open>startup_event\<close> completes exactly when the processor and all three
  adapters are constructed: the failure of any one of them is re-raised by the startup
  hook.
\<close>

theorem startup_completes_iff_all_load:
  "(fst (startup_event cuda_available ctors g) = Inr ()) =
     (\<not> isl (CudaVisionProcessor ctors (device_name cuda_available))
      \<and> \<not> isl (HandTracker ctors (device_name cuda_available))
      \<and> \<not> isl (YOLODetector ctors (device_name cuda_available))
      \<and> \<not> isl (PoseEstimator ctors (device_name cuda_available)))"
  unfolding startup_event_def Let_def
  by (auto split: sum.splits)


theorem startup_completes_iff_all_load_witness:
  "isl (HandTracker failing_constructors (device_name False))
   \<and> fst (startup_event False failing_constructors initial_globals) \<noteq> Inr ()"
proof -
  have f: "isl (HandTracker failing_constructors (device_name False))"
    by (simp add: failing_constructors_def)
  show ?thesis
    using startup_completes_iff_all_load [of False failing_constructors initial_globals] f
    by simp
qed

text \<open>
  C4. In every detection result the handler sends, \<open>control\<close> is present exactly when
  the list of hands is not empty.
\<close>

theorem control_present_iff_hands:
  assumes "Detection r \<in> set (fst (websocket_vision g lib received))"
  shows "(control r \<noteq> None) = (hands r \<noteq> [])"
  using assms
proof (induction received)
  case Nil
  then show ?case by simp
next
  case (Cons ev rest)
  show ?case
  proof (cases ev)
    case (Text msg)
    show ?thesis
    proof (cases "handle_message g lib msg")
      case (Inl e)
      with Cons.prems Text show ?thesis by simp
    next
      case (Inr sent)
      with Cons.prems Text
      have "Detection r \<in> set sent \<or> Detection r \<in> set (fst (websocket_vision g lib rest))"
        by (auto split: prod.splits)
      then show ?thesis
      proof
        assume "Detection r \<in> set sent"
        with Inr show ?thesis by (rule handle_message_sent)
      next
        assume "Detection r \<in> set (fst (websocket_vision g lib rest))"
        then show ?thesis by (rule Cons.IH)
      qed
    qed
  next
    case InvalidText
    with Cons.prems show ?thesis by simp
  next
    case Disconnect
    with Cons.prems show ?thesis by simp
  qed
qed

theorem control_present_iff_hands_witness:
  "Detection (sample_result (JNum 1) [])
     \<in> set (fst (websocket_vision sample_globals sample_decode [Text (JObj sample_frame)]))
   \<and> control (sample_result (JNum 1) []) = Some sample_control
   \<and> hands (sample_result (JNum 1) []) = [sample_hand]"
proof -
  have m: "Detection (sample_result (JNum 1) [])
     \<in> set (fst (websocket_vision sample_globals sample_decode [Text (JObj sample_frame)]))"
    by (simp add: handle_frame sample_types process_sample_frame)
  show ?thesis
    using control_present_iff_hands [OF m] m by (simp add: sample_result_def)
qed

text \<open>
  C7. The code at the input that contradicts the claim: after a \<open>config\<close> message
  enabling \<open>detectObjects\<close>, the acknowledgement echoes the configuration sent, and a
  following frame without the flag of its own has an empty \<open>objects\<close> list, although
  the object adapter is loaded and reports an object for the same frame when the flag
  is on the frame message.
\<close>

theorem config_not_applied:
  "websocket_vision sample_globals sample_decode
     [Text (JObj objects_config), Text (JObj sample_frame)]
     = ([ConfigAck (JObj [(''detectObjects'', JBool True)]),
         Detection (sample_result (JNum 1) [])], Receiving)
   \<and> process_frame sample_globals sample_decode objects_frame
     = Inr [Detection (sample_result (JNum 1) [sample_object])]"
  by (simp add: handle_frame handle_config sample_types process_sample_frame
      process_objects_frame)
    (simp add: objects_config_def dict_get_def)




end
